theory Spec2Isabelle
  imports Main
begin

section \<open>Data model of \<^verbatim>\<open>src/router.ts\<close>\<close>

text \<open>
  A JavaScript string is modelled as a \<^typ>\<open>string\<close>, each character standing for one code
  unit below 256; strings with other code units are outside the model. A string-keyed dictionary object is an association list in insertion
  order. The status code, a JavaScript number, is an \<^typ>\<open>int\<close>; the router only passes
  it on. An optional field of \<^verbatim>\<open>HttpEventResponse\<close> is an \<^typ>\<open>'a option\<close>.
  The field \<^verbatim>\<open>method\<close> of the request is \<open>request_method\<close> here, as the proof language
  reserves the word.
\<close>

type_synonym StringKeyValueDict = "(string \<times> string) list"

record HttpEventRequest =
  path :: string
  request_method :: string
  headers :: StringKeyValueDict
  pathParameters :: StringKeyValueDict
  queryStringParameters :: StringKeyValueDict
  body :: string
  isBodyBase64 :: bool
  sourceIp :: string
  requestId :: string

record HttpEventResponse =
  statusCode :: "int option"
  headers :: "StringKeyValueDict option"
  body :: "string option"
  isBodyBase64 :: "bool option"

text \<open>
  \<^verbatim>\<open>type HttpMethod = 'ANY' | 'OPTIONS' | 'GET' | 'HEAD' | 'PUT' | 'POST' | 'DELETE' | 'PATCH'\<close>:
  a union of string literals. At run time a method is the string itself, which
  \<open>HttpMethod_string\<close> gives.
\<close>

datatype HttpMethod = ANY | OPTIONS | GET | HEAD | PUT | POST | DELETE | PATCH

fun HttpMethod_string :: "HttpMethod \<Rightarrow> string" where
  "HttpMethod_string ANY = ''ANY''"
| "HttpMethod_string OPTIONS = ''OPTIONS''"
| "HttpMethod_string GET = ''GET''"
| "HttpMethod_string HEAD = ''HEAD''"
| "HttpMethod_string PUT = ''PUT''"
| "HttpMethod_string POST = ''POST''"
| "HttpMethod_string DELETE = ''DELETE''"
| "HttpMethod_string PATCH = ''PATCH''"

definition HttpMethodAny :: string where
  "HttpMethodAny = ''ANY''"

section \<open>The route table\<close>

text \<open>
  \<^verbatim>\<open>Map<string, Map<string, RouteHandler>>\<close>: a map from paths to maps from methods to
  handlers. The table never calls a handler, so it is polymorphic in the handler type.
  \<open>Map_has\<close> is \<^verbatim>\<open>Map.prototype.has\<close>; \<^verbatim>\<open>Map.prototype.get\<close> is the application of
  the map, and the non-null assertion \<^verbatim>\<open>!\<close> after it is \<^const>\<open>the\<close>. Every inner map is
  created by \<open>RouteTable_set\<close> for one path and reached only through that path, so no two
  paths share one.
\<close>

type_synonym 'h RouteTable = "string \<rightharpoonup> (string \<rightharpoonup> 'h)"

definition Map_has :: "('a \<rightharpoonup> 'b) \<Rightarrow> 'a \<Rightarrow> bool" where
  "Map_has m k = (m k \<noteq> None)"

definition RouteTable_new :: "'h RouteTable" where
  "RouteTable_new = Map.empty"

definition RouteTable_set :: "'h RouteTable \<Rightarrow> string \<Rightarrow> HttpMethod \<Rightarrow> 'h \<Rightarrow> 'h RouteTable" where
  "RouteTable_set routes p m handler =
     (let pathMap = (if \<not> Map_has routes p then routes(p \<mapsto> Map.empty) else routes);
          methodMap = the (pathMap p)
      in pathMap(p \<mapsto> methodMap(HttpMethod_string m \<mapsto> handler)))"

definition RouteTable_find :: "'h RouteTable \<Rightarrow> string \<Rightarrow> string \<Rightarrow> 'h option" where
  "RouteTable_find routes p m =
     (if \<not> Map_has routes p then None
      else let methodMap = the (routes p)
           in if Map_has methodMap HttpMethodAny then Some (the (methodMap HttpMethodAny))
              else if \<not> Map_has methodMap m then None
              else Some (the (methodMap m)))"

subsection \<open>The table as a list of registrations\<close>

text \<open>
  The specification speaks of the registered (path, method, handler) triples.
  \<open>register_all\<close> makes the calls of \<open>set\<close> for a list of them, in order.
  \<open>last_registered\<close> and \<open>spec_find\<close> follow the words of the specification, not the
  source: the handler of a path and method is the one registered last for them, and
  \<open>find\<close> prefers the wildcard handler of the path. \<open>entry\<close> reads one cell of the
  two-level map.
\<close>

fun register_all :: "'h RouteTable \<Rightarrow> (string \<times> HttpMethod \<times> 'h) list \<Rightarrow> 'h RouteTable" where
  "register_all routes [] = routes"
| "register_all routes ((p, m, handler) # rest) = register_all (RouteTable_set routes p m handler) rest"

fun last_registered :: "(string \<times> HttpMethod \<times> 'h) list \<Rightarrow> string \<Rightarrow> string \<Rightarrow> 'h option" where
  "last_registered [] p ms = None"
| "last_registered ((q, m, handler) # rest) p ms =
     (case last_registered rest p ms of
        Some later \<Rightarrow> Some later
      | None \<Rightarrow> if q = p \<and> HttpMethod_string m = ms then Some handler else None)"

definition spec_find :: "(string \<times> HttpMethod \<times> 'h) list \<Rightarrow> string \<Rightarrow> string \<Rightarrow> 'h option" where
  "spec_find registrations p ms =
     (case last_registered registrations p ''ANY'' of
        Some wildcard \<Rightarrow> Some wildcard
      | None \<Rightarrow> last_registered registrations p ms)"

definition entry :: "'h RouteTable \<Rightarrow> string \<Rightarrow> string \<Rightarrow> 'h option" where
  "entry routes p ms = (case routes p of None \<Rightarrow> None | Some methodMap \<Rightarrow> methodMap ms)"

section \<open>\<^verbatim>\<open>JSON.stringify\<close> on the object literals of the fallback handlers\<close>

text \<open>
  The fallback handlers serialise an object literal whose property values are strings
  and, under the key \<^verbatim>\<open>time\<close>, the function \<^verbatim>\<open>currentTimeISOString\<close> itself: the
  source names the function and does not call it. \<open>js_value\<close> has these two kinds of
  value. The serialisation follows ECMA-262 (\<^verbatim>\<open>QuoteJSONString\<close>,
  \<^verbatim>\<open>SerializeJSONProperty\<close>, \<^verbatim>\<open>SerializeJSONObject\<close>): a string is quoted, with
  the double quote, the backslash and the code units below \<^verbatim>\<open>0x20\<close> escaped; a
  function serialises to \<^verbatim>\<open>undefined\<close>, and a property whose value does so is left out
  of the object. The properties come in the order of the literal (none of the keys is an
  array index). \<^verbatim>\<open>CHR 0x22\<close> is the double quote and \<^verbatim>\<open>CHR 0x5C\<close> the backslash.
\<close>

datatype js_value = JS_string string | JS_function

definition currentTimeISOString :: js_value where
  "currentTimeISOString = JS_function"

definition hex_digit :: "nat \<Rightarrow> char" where
  "hex_digit n = ''0123456789abcdef'' ! (n mod 16)"

definition QuoteJSONString_unit :: "char \<Rightarrow> string" where
  "QuoteJSONString_unit c =
     (if c = CHR 0x08 then [CHR 0x5C, CHR ''b'']
      else if c = CHR 0x09 then [CHR 0x5C, CHR ''t'']
      else if c = CHR 0x0A then [CHR 0x5C, CHR ''n'']
      else if c = CHR 0x0C then [CHR 0x5C, CHR ''f'']
      else if c = CHR 0x0D then [CHR 0x5C, CHR ''r'']
      else if c = CHR 0x22 then [CHR 0x5C, CHR 0x22]
      else if c = CHR 0x5C then [CHR 0x5C, CHR 0x5C]
      else if (of_char c :: nat) < 0x20
        then [CHR 0x5C, CHR ''u'', CHR ''0'', CHR ''0'',
              hex_digit (of_char c div 16), hex_digit (of_char c mod 16)]
      else [c])"

definition QuoteJSONString :: "string \<Rightarrow> string" where
  "QuoteJSONString s = [CHR 0x22] @ concat (map QuoteJSONString_unit s) @ [CHR 0x22]"

fun SerializeJSONProperty :: "js_value \<Rightarrow> string option" where
  "SerializeJSONProperty (JS_string s) = Some (QuoteJSONString s)"
| "SerializeJSONProperty JS_function = None"

fun join_with_comma :: "string list \<Rightarrow> string" where
  "join_with_comma [] = []"
| "join_with_comma [x] = x"
| "join_with_comma (x # y # ys) = x @ '','' @ join_with_comma (y # ys)"

definition SerializeJSONObject :: "(string \<times> js_value) list \<Rightarrow> string" where
  "SerializeJSONObject properties =
     (let partial = List.map_filter
            (\<lambda>(key, v). case SerializeJSONProperty v of
                 None \<Rightarrow> None
               | Some strP \<Rightarrow> Some (QuoteJSONString key @ '':'' @ strP))
            properties
      in if partial = [] then ''{}'' else ''{'' @ join_with_comma partial @ ''}'')"

definition JSON_stringify :: "(string \<times> js_value) list \<Rightarrow> string" where
  "JSON_stringify obj = SerializeJSONObject obj"

section \<open>The router\<close>

text \<open>
  A thrown value is an instance of \<^verbatim>\<open>Error\<close>, of which the router reads the message
  only, or any other value, of a type \<open>'v\<close> the model leaves open.
  \<^verbatim>\<open>error instanceof Error\<close> is the case distinction on \<open>thrown\<close>.

  Reading \<^verbatim>\<open>error.message\<close> (line 157) gives a text, or it throws: the property may be
  an accessor of a subclass of \<^verbatim>\<open>Error\<close>. \<open>Error msg\<close> is an \<^verbatim>\<open>Error\<close> whose message
  is the text; \<open>Error_message_throws t\<close> is one whose message, when read, throws \<open>t\<close>.
  \<open>message\<close> is the read. The type \<^verbatim>\<open>message: string\<close> excludes a message that is read
  and is no string. Each \<^verbatim>\<open>Error\<close> gives the same outcome at every read, and the values
  thrown by reads are nested to a finite depth; \<open>handle\<close> reads at most two messages.
\<close>

datatype 'v Error = Error string | Error_message_throws "'v thrown"
  and 'v thrown = Thrown_Error "'v Error" | Thrown_other 'v

fun message :: "'v Error \<Rightarrow> 'v thrown + string" where
  "message (Error msg) = Inr msg"
| "message (Error_message_throws thrown_value) = Inl thrown_value"

text \<open>
  A handler returns a promise; the model gives the promise's settled outcome: \<open>Inr\<close>
  the response it fulfils with, \<open>Inl\<close> the value it rejects with (or the handler throws).
  A handler whose promise never settles is outside the model: \<open>handle\<close> awaits it and
  does nothing else. The transformers are plain functions that may throw. The unknown-error handler takes
  the caught value, of type \<^verbatim>\<open>unknown\<close>.
\<close>

type_synonym 'v RouteHandler = "HttpEventRequest \<Rightarrow> 'v thrown + HttpEventResponse"

type_synonym 'v RouteUnhandledErrorHandler =
  "HttpEventRequest \<Rightarrow> 'v Error \<Rightarrow> 'v thrown + HttpEventResponse"

type_synonym 'v RouteUnhandledErrorUnknownHandler =
  "HttpEventRequest \<Rightarrow> 'v thrown \<Rightarrow> 'v thrown + HttpEventResponse"

text \<open>
  The class \<^verbatim>\<open>Router<T, K>\<close> with all its instance properties. The last three are
  the \<^verbatim>\<open>private readonly\<close> properties that the class initialises with arrow functions;
  \<open>handle\<close> reads them from the instance, as the source does with \<^verbatim>\<open>this\<close>.
\<close>

record ('t, 'k, 'v) Router =
  requestTransformer :: "'t \<Rightarrow> 'v thrown + HttpEventRequest"
  responseTransformer :: "HttpEventResponse \<Rightarrow> 'v thrown + 'k"
  routeTable :: "'v RouteHandler RouteTable"
  routeNotFoundHandler :: "'v RouteHandler"
  routeUnhandledExceptionHandler :: "'v RouteUnhandledErrorHandler"
  routeNotFoundHandlerDefault :: "'v RouteHandler"
  routeUnhandledErrorHandlerDefault :: "'v RouteUnhandledErrorHandler"
  routeUnhandledErrorUnknownHandler :: "'v RouteUnhandledErrorUnknownHandler"

text \<open>
  The three arrow functions (lines 130-176). The unhandled-error handler reads the
  message of the error while it builds the object literal; when the read throws, the
  handler's promise rejects with the thrown value.
\<close>

definition routeNotFoundHandlerDefault_fn :: "'v RouteHandler" where
  "routeNotFoundHandlerDefault_fn request =
     Inr \<lparr>statusCode = Some 404,
          headers = Some [(''Content-Type'', ''application/json'')],
          body = Some (JSON_stringify
            [(''path'', JS_string (path request)),
             (''method'', JS_string (request_method request)),
             (''requestId'', JS_string (requestId request)),
             (''time'', currentTimeISOString),
             (''message'', JS_string ''404 Not Found'')]),
          isBodyBase64 = None\<rparr>"

definition routeUnhandledErrorHandlerDefault_fn :: "'v RouteUnhandledErrorHandler" where
  "routeUnhandledErrorHandlerDefault_fn request error =
     (case message error of
        Inl thrown_value \<Rightarrow> Inl thrown_value
      | Inr detail \<Rightarrow>
          Inr \<lparr>statusCode = Some 500,
               headers = Some [(''Content-Type'', ''application/json'')],
               body = Some (JSON_stringify
                 [(''path'', JS_string (path request)),
                  (''method'', JS_string (request_method request)),
                  (''time'', currentTimeISOString),
                  (''message'', JS_string ''500 Internal Server Error''),
                  (''detail'', JS_string detail)]),
               isBodyBase64 = None\<rparr>)"

definition routeUnhandledErrorUnknownHandler_fn :: "'v RouteUnhandledErrorUnknownHandler" where
  "routeUnhandledErrorUnknownHandler_fn request error =
     Inr \<lparr>statusCode = Some 500,
          headers = Some [(''Content-Type'', ''application/json'')],
          body = Some (JSON_stringify
            [(''path'', JS_string (path request)),
             (''method'', JS_string (request_method request)),
             (''time'', currentTimeISOString),
             (''message'', JS_string ''500 Internal Server Error''),
             (''detail'', JS_string ''Unknown'')]),
          isBodyBase64 = None\<rparr>"

text \<open>
  The constructor: the property initialisers run before its body, so the two replaceable
  handlers start as the defaults.
\<close>

definition Router_new ::
  "('t \<Rightarrow> 'v thrown + HttpEventRequest) \<Rightarrow> (HttpEventResponse \<Rightarrow> 'v thrown + 'k) \<Rightarrow> ('t, 'k, 'v) Router" where
  "Router_new requestTransformer' responseTransformer' =
     \<lparr>requestTransformer = requestTransformer',
      responseTransformer = responseTransformer',
      routeTable = RouteTable_new,
      routeNotFoundHandler = routeNotFoundHandlerDefault_fn,
      routeUnhandledExceptionHandler = routeUnhandledErrorHandlerDefault_fn,
      routeNotFoundHandlerDefault = routeNotFoundHandlerDefault_fn,
      routeUnhandledErrorHandlerDefault = routeUnhandledErrorHandlerDefault_fn,
      routeUnhandledErrorUnknownHandler = routeUnhandledErrorUnknownHandler_fn\<rparr>"

definition setRoute ::
  "('t, 'k, 'v) Router \<Rightarrow> string \<Rightarrow> HttpMethod \<Rightarrow> 'v RouteHandler \<Rightarrow> ('t, 'k, 'v) Router" where
  "setRoute r p m handler = r\<lparr>routeTable := RouteTable_set (routeTable r) p m handler\<rparr>"

definition setRouteNotFoundHandler ::
  "('t, 'k, 'v) Router \<Rightarrow> 'v RouteHandler \<Rightarrow> ('t, 'k, 'v) Router" where
  "setRouteNotFoundHandler r handler = r\<lparr>routeNotFoundHandler := handler\<rparr>"

definition setRouteUnhandledExceptionHandler ::
  "('t, 'k, 'v) Router \<Rightarrow> 'v RouteUnhandledErrorHandler \<Rightarrow> ('t, 'k, 'v) Router" where
  "setRouteUnhandledExceptionHandler r handler = r\<lparr>routeUnhandledExceptionHandler := handler\<rparr>"

text \<open>The routers that the public operations of the class can build.\<close>

inductive constructed :: "('t, 'k, 'v) Router \<Rightarrow> bool" where
  constructed_new: "constructed (Router_new requestTransformer' responseTransformer')"
| constructed_setRoute: "constructed r \<Longrightarrow> constructed (setRoute r p m handler)"
| constructed_setRouteNotFoundHandler:
    "constructed r \<Longrightarrow> constructed (setRouteNotFoundHandler r handler)"
| constructed_setRouteUnhandledExceptionHandler:
    "constructed r \<Longrightarrow> constructed (setRouteUnhandledExceptionHandler r handler')"

subsection \<open>\<open>handle\<close>\<close>

text \<open>
  \<open>handle\<close> returns what the source returns or throws, and the calls it made to the
  handlers and to the response transformer, in order, each with its arguments.
  \<open>invoke\<close> is one call, \<open>await_then\<close> runs the rest after a call that returned and
  passes a thrown value on, \<open>try_catch\<close> runs the catch block on a thrown value.
\<close>

datatype 'v call =
    is_routeNotFoundHandler_call: Call_routeNotFoundHandler HttpEventRequest
  | is_routeHandler_call: Call_routeHandler HttpEventRequest
  | is_routeUnhandledErrorHandlerDefault_call:
      Call_routeUnhandledErrorHandlerDefault HttpEventRequest "'v Error"
  | is_routeUnhandledErrorUnknownHandler_call:
      Call_routeUnhandledErrorUnknownHandler HttpEventRequest "'v thrown"
  | is_responseTransformer_call: Call_responseTransformer HttpEventResponse

type_synonym ('v, 'a) outcome = "'v call list \<times> ('v thrown + 'a)"

definition invoke :: "'v call \<Rightarrow> 'v thrown + 'a \<Rightarrow> ('v, 'a) outcome" where
  "invoke c result = ([c], result)"

definition await_then :: "('v, 'a) outcome \<Rightarrow> ('a \<Rightarrow> ('v, 'b) outcome) \<Rightarrow> ('v, 'b) outcome" where
  "await_then first rest =
     (case first of
        (calls, Inl thrown_value) \<Rightarrow> (calls, Inl thrown_value)
      | (calls, Inr a) \<Rightarrow> (case rest a of (calls', result) \<Rightarrow> (calls @ calls', result)))"

definition try_catch :: "('v, 'a) outcome \<Rightarrow> ('v thrown \<Rightarrow> ('v, 'a) outcome) \<Rightarrow> ('v, 'a) outcome" where
  "try_catch block handler =
     (case block of
        (calls, Inl thrown_value) \<Rightarrow>
          (case handler thrown_value of (calls', result) \<Rightarrow> (calls @ calls', result))
      | (calls, Inr a) \<Rightarrow> (calls, Inr a))"

text \<open>The try block of \<open>handle\<close> (lines 94-99).\<close>

definition dispatch ::
  "('t, 'k, 'v) Router \<Rightarrow> HttpEventRequest \<Rightarrow> ('v, HttpEventResponse) outcome" where
  "dispatch r request =
     (case RouteTable_find (routeTable r) (path request) (request_method request) of
        None \<Rightarrow> invoke (Call_routeNotFoundHandler request) (routeNotFoundHandler r request)
      | Some handler \<Rightarrow> invoke (Call_routeHandler request) (handler request))"

text \<open>The catch block of \<open>handle\<close> (lines 100-114).\<close>

definition recover ::
  "('t, 'k, 'v) Router \<Rightarrow> HttpEventRequest \<Rightarrow> 'v thrown \<Rightarrow> ('v, HttpEventResponse) outcome" where
  "recover r request error =
     (case error of
        Thrown_Error e \<Rightarrow>
          try_catch
            (invoke (Call_routeUnhandledErrorHandlerDefault request e)
               (routeUnhandledErrorHandlerDefault r request e))
            (\<lambda>error'. case error' of
               Thrown_Error e' \<Rightarrow>
                 invoke (Call_routeUnhandledErrorHandlerDefault request e')
                   (routeUnhandledErrorHandlerDefault r request e')
             | Thrown_other v \<Rightarrow>
                 invoke (Call_routeUnhandledErrorUnknownHandler request error')
                   (routeUnhandledErrorUnknownHandler r request error'))
      | Thrown_other v \<Rightarrow>
          invoke (Call_routeUnhandledErrorUnknownHandler request error)
            (routeUnhandledErrorUnknownHandler r request error))"

definition handle :: "('t, 'k, 'v) Router \<Rightarrow> 't \<Rightarrow> ('v, 'k) outcome" where
  "handle r event =
     (case requestTransformer r event of
        Inl thrown_value \<Rightarrow> ([], Inl thrown_value)
      | Inr request \<Rightarrow>
          await_then (try_catch (dispatch r request) (recover r request))
            (\<lambda>response. invoke (Call_responseTransformer response)
               (responseTransformer r response)))"

section \<open>Example tables and routers\<close>

text \<open>Handlers of the examples on the table alone: numbers stand for them.\<close>

definition table_any_x :: "nat RouteTable" where
  "table_any_x = RouteTable_set RouteTable_new ''/x'' ANY 7"

text \<open>
  The routers of the examples take a request as their event and return the response as it
  is; a thrown value that is no \<^verbatim>\<open>Error\<close> is a string.
\<close>

definition request_of :: "string \<Rightarrow> string \<Rightarrow> HttpEventRequest" where
  "request_of p m =
     \<lparr>path = p, request_method = m, HttpEventRequest.headers = [], pathParameters = [],
      queryStringParameters = [], HttpEventRequest.body = [],
      HttpEventRequest.isBodyBase64 = False, sourceIp = ''203.0.113.9'',
      requestId = ''req-1''\<rparr>"

definition example_router :: "(HttpEventRequest, HttpEventResponse, string) Router" where
  "example_router = Router_new Inr Inr"

definition throws_Error :: "string RouteHandler" where
  "throws_Error request = Inl (Thrown_Error (Error ''boom''))"

definition throws_Error_odd :: "string RouteHandler" where
  "throws_Error_odd request = Inl (Thrown_Error (Error ''odd''))"

definition throws_string :: "string RouteHandler" where
  "throws_string request = Inl (Thrown_other ''secret'')"

definition custom_response :: HttpEventResponse where
  "custom_response = \<lparr>statusCode = Some 503, headers = None, body = Some ''custom'',
     isBodyBase64 = None\<rparr>"

definition custom_error_handler :: "string RouteUnhandledErrorHandler" where
  "custom_error_handler request error = Inr custom_response"

definition failing_router :: "(HttpEventRequest, HttpEventResponse, string) Router" where
  "failing_router =
     setRoute (setRoute example_router ''/boom'' GET throws_Error) ''/secret'' GET throws_string"

definition customised_router :: "(HttpEventRequest, HttpEventResponse, string) Router" where
  "customised_router = setRouteUnhandledExceptionHandler failing_router custom_error_handler"

text \<open>
  An error handler that throws an \<^verbatim>\<open>Error\<close> on the message \<^verbatim>\<open>boom\<close>, a string on the
  message \<^verbatim>\<open>odd\<close>, and answers every other message; and a router that holds it in the
  property \<^verbatim>\<open>routeUnhandledErrorHandlerDefault\<close>.
\<close>

definition flaky_error_handler :: "string RouteUnhandledErrorHandler" where
  "flaky_error_handler request error =
     (if message error = Inr ''boom'' then Inl (Thrown_Error (Error ''again''))
      else if message error = Inr ''odd'' then Inl (Thrown_other ''x'')
      else Inr custom_response)"

definition flaky_router :: "(HttpEventRequest, HttpEventResponse, string) Router" where
  "flaky_router =
     (setRoute (setRoute example_router ''/boom'' GET throws_Error) ''/odd'' GET throws_Error_odd)
       \<lparr>routeUnhandledErrorHandlerDefault := flaky_error_handler\<rparr>"





section \<open>Properties of the route table\<close>

lemma RouteTable_set_same_path:
  "RouteTable_set routes p m handler p =
     Some ((case routes p of None \<Rightarrow> Map.empty | Some mm \<Rightarrow> mm)(HttpMethod_string m \<mapsto> handler))"
  by (simp add: RouteTable_set_def Map_has_def Let_def split: option.splits)

lemma RouteTable_set_other_path:
  "q \<noteq> p \<Longrightarrow> RouteTable_set routes p m handler q = routes q"
  by (simp add: RouteTable_set_def Map_has_def Let_def)

lemma HttpMethod_string_inj: "HttpMethod_string a = HttpMethod_string b \<longleftrightarrow> a = b"
  by (cases a; cases b) simp_all

lemma HttpMethod_string_any: "HttpMethod_string a = HttpMethodAny \<longleftrightarrow> a = ANY"
  by (cases a) (simp_all add: HttpMethodAny_def)

text \<open>
  Claim C1. For every path and method, \<open>find\<close> returns absent when the table has no entry
  for the path; when the path has an entry with a handler under the wildcard method
  \<^verbatim>\<open>'ANY'\<close>, it returns that handler whatever the method asked for; otherwise it returns
  the handler registered under the method asked for, if there is one, else absent.
\<close>

theorem RouteTable_find_cases:
  "(routes p = None \<longrightarrow> RouteTable_find routes p m = None) \<and>
   (\<forall>methodMap h. routes p = Some methodMap \<and> methodMap ''ANY'' = Some h \<longrightarrow>
      RouteTable_find routes p m = Some h) \<and>
   (\<forall>methodMap. routes p = Some methodMap \<and> methodMap ''ANY'' = None \<longrightarrow>
      RouteTable_find routes p m = methodMap m)"
  by (auto simp: RouteTable_find_def Map_has_def HttpMethodAny_def Let_def)

theorem RouteTable_find_cases_witness:
  "RouteTable_find (RouteTable_new :: nat RouteTable) ''/x'' ''GET'' = None \<and>
   RouteTable_find table_any_x ''/x'' ''POST'' = Some 7 \<and>
   RouteTable_find (RouteTable_set RouteTable_new ''/x'' GET (3::nat)) ''/x'' ''GET'' = Some 3 \<and>
   RouteTable_find (RouteTable_set RouteTable_new ''/x'' GET (3::nat)) ''/x'' ''PUT'' = None"
proof -
  have none: "(RouteTable_new :: nat RouteTable) ''/x'' = None"
    by (simp add: RouteTable_new_def)
  have any: "table_any_x ''/x'' = Some (Map.empty(''ANY'' \<mapsto> 7)) \<and>
             (Map.empty(''ANY'' \<mapsto> (7::nat))) ''ANY'' = Some 7"
    by (simp add: table_any_x_def RouteTable_set_same_path RouteTable_new_def)
  have get: "RouteTable_set RouteTable_new ''/x'' GET (3::nat) ''/x'' = Some (Map.empty(''GET'' \<mapsto> 3)) \<and>
             (Map.empty(''GET'' \<mapsto> (3::nat))) ''ANY'' = None"
    by (simp add: RouteTable_set_same_path RouteTable_new_def)
  show ?thesis
    using RouteTable_find_cases [of "RouteTable_new :: nat RouteTable" "''/x''" "''GET''"]
      RouteTable_find_cases [of table_any_x "''/x''" "''POST''"]
      RouteTable_find_cases [of "RouteTable_set RouteTable_new ''/x'' GET (3::nat)" "''/x''" "''GET''"]
      RouteTable_find_cases [of "RouteTable_set RouteTable_new ''/x'' GET (3::nat)" "''/x''" "''PUT''"]
      none any get
    by simp
qed

lemma RouteTable_find_via_entry:
  "RouteTable_find routes p m =
     (case routes p of None \<Rightarrow> None
      | Some methodMap \<Rightarrow> (case methodMap ''ANY'' of Some h \<Rightarrow> Some h | None \<Rightarrow> methodMap m))"
  by (auto simp: RouteTable_find_def Map_has_def HttpMethodAny_def Let_def split: option.splits)

lemma RouteTable_set_twice:
  "RouteTable_set (RouteTable_set routes p m h1) p m h2 = RouteTable_set routes p m h2"
proof (rule ext)
  fix q
  show "RouteTable_set (RouteTable_set routes p m h1) p m h2 q = RouteTable_set routes p m h2 q"
  proof (cases "q = p")
    case True
    then show ?thesis by (simp add: RouteTable_set_same_path)
  next
    case False
    then show ?thesis by (simp add: RouteTable_set_other_path)
  qed
qed

text \<open>
  Claim C8, as stated: after \<open>set(p, m, h1)\<close> and \<open>set(p, m, h2)\<close> a following
  \<open>find(p, m)\<close> returns \<open>h2\<close>. On a table that holds a wildcard handler for \<^verbatim>\<open>/x\<close>,
  registering \<^verbatim>\<open>GET /x\<close> twice and looking \<^verbatim>\<open>GET /x\<close> up gives the wildcard handler 7,
  not the second handler 2.
\<close>

theorem RouteTable_set_twice_find_counterexample:
  "RouteTable_find (RouteTable_set (RouteTable_set table_any_x ''/x'' GET 1) ''/x'' GET 2)
     ''/x'' (HttpMethod_string GET) = Some 7 \<and>
   RouteTable_find (RouteTable_set (RouteTable_set table_any_x ''/x'' GET 1) ''/x'' GET 2)
     ''/x'' (HttpMethod_string GET) \<noteq> Some 2"
  by (simp add: RouteTable_find_via_entry RouteTable_set_same_path table_any_x_def
      RouteTable_new_def)

text \<open>
  Claim C8, amended. From every table, \<open>set(p, m, h1)\<close> followed by \<open>set(p, m, h2)\<close> gives
  the table that \<open>set(p, m, h2)\<close> alone gives; \<open>set\<close> has no error result. A following
  \<open>find(p, m)\<close> returns \<open>h2\<close> when \<open>m\<close> is the wildcard method or the table held no
  wildcard handler for \<open>p\<close>; when it held one and \<open>m\<close> is another method, \<open>find\<close> returns
  that wildcard handler.
\<close>

theorem RouteTable_set_twice_last_write_wins:
  "RouteTable_set (RouteTable_set routes p m h1) p m h2 = RouteTable_set routes p m h2 \<and>
   (m = ANY \<or> RouteTable_find routes p ''ANY'' = None \<longrightarrow>
      RouteTable_find (RouteTable_set (RouteTable_set routes p m h1) p m h2) p (HttpMethod_string m)
        = Some h2) \<and>
   (\<forall>w. m \<noteq> ANY \<and> RouteTable_find routes p ''ANY'' = Some w \<longrightarrow>
      RouteTable_find (RouteTable_set (RouteTable_set routes p m h1) p m h2) p (HttpMethod_string m)
        = Some w)"
proof (intro conjI allI impI)
  show "RouteTable_set (RouteTable_set routes p m h1) p m h2 = RouteTable_set routes p m h2"
    by (rule RouteTable_set_twice)
next
  assume "m = ANY \<or> RouteTable_find routes p ''ANY'' = None"
  then show "RouteTable_find (RouteTable_set (RouteTable_set routes p m h1) p m h2) p
      (HttpMethod_string m) = Some h2"
    using HttpMethod_string_any [of m]
    by (auto simp: RouteTable_set_twice RouteTable_find_via_entry RouteTable_set_same_path
        HttpMethodAny_def split: option.splits)
next
  fix w
  assume "m \<noteq> ANY \<and> RouteTable_find routes p ''ANY'' = Some w"
  then show "RouteTable_find (RouteTable_set (RouteTable_set routes p m h1) p m h2) p
      (HttpMethod_string m) = Some w"
    using HttpMethod_string_any [of m]
    by (auto simp: RouteTable_set_twice RouteTable_find_via_entry RouteTable_set_same_path
        HttpMethodAny_def split: option.splits)
qed

theorem RouteTable_set_twice_last_write_wins_witness:
  "RouteTable_set (RouteTable_set (RouteTable_new :: nat RouteTable) ''/'' GET 1) ''/'' GET 2
     = RouteTable_set RouteTable_new ''/'' GET 2 \<and>
   RouteTable_find (RouteTable_set (RouteTable_set (RouteTable_new :: nat RouteTable) ''/'' GET 1)
     ''/'' GET 2) ''/'' ''GET'' = Some 2 \<and>
   RouteTable_find (RouteTable_set (RouteTable_set table_any_x ''/x'' ANY 1) ''/x'' ANY 2)
     ''/x'' ''ANY'' = Some 2 \<and>
   RouteTable_find (RouteTable_set (RouteTable_set table_any_x ''/x'' POST 1) ''/x'' POST 2)
     ''/x'' ''POST'' = Some 7"
proof -
  have none: "RouteTable_find (RouteTable_new :: nat RouteTable) ''/'' ''ANY'' = None"
    by (simp add: RouteTable_find_via_entry RouteTable_new_def)
  have any: "RouteTable_find table_any_x ''/x'' ''ANY'' = Some 7"
    by (simp add: RouteTable_find_via_entry table_any_x_def RouteTable_set_same_path
        RouteTable_new_def)
  have eq: "RouteTable_set (RouteTable_set (RouteTable_new :: nat RouteTable) ''/'' GET 1) ''/'' GET 2
      = RouteTable_set RouteTable_new ''/'' GET 2"
    by (rule RouteTable_set_twice_last_write_wins [THEN conjunct1])
  have plain: "RouteTable_find (RouteTable_set (RouteTable_set (RouteTable_new :: nat RouteTable)
      ''/'' GET 1) ''/'' GET 2) ''/'' ''GET'' = Some 2"
    using RouteTable_set_twice_last_write_wins
      [of "RouteTable_new :: nat RouteTable" "''/''" GET 1 2, THEN conjunct2, THEN conjunct1] none
    by simp
  have wild: "RouteTable_find (RouteTable_set (RouteTable_set table_any_x ''/x'' ANY 1) ''/x'' ANY 2)
      ''/x'' ''ANY'' = Some 2"
    using RouteTable_set_twice_last_write_wins
      [of table_any_x "''/x''" ANY 1 2, THEN conjunct2, THEN conjunct1]
    by simp
  have shadowed: "RouteTable_find (RouteTable_set (RouteTable_set table_any_x ''/x'' POST 1) ''/x''
      POST 2) ''/x'' ''POST'' = Some 7"
    using RouteTable_set_twice_last_write_wins
      [of table_any_x "''/x''" POST 1 2, THEN conjunct2, THEN conjunct2] any
    by simp
  from eq plain wild shadowed show ?thesis by blast
qed

text \<open>
  Claim C10. \<open>set(p, m, h)\<close> leaves the entry of every path \<open>p'\<close> other than \<open>p\<close> as it
  was, and with it \<open>find(p', m')\<close> for every method \<open>m'\<close>. The empty path is a key as any other: a registration
  under it is found under it, it is untouched by a registration under another path, and a
  registration under it touches no other path.
\<close>

theorem RouteTable_set_frame:
  "(p' \<noteq> p \<longrightarrow> RouteTable_set routes p m h p' = routes p') \<and>
   (p' \<noteq> p \<longrightarrow>
      RouteTable_find (RouteTable_set routes p m h) p' m' = RouteTable_find routes p' m') \<and>
   (p \<noteq> '''' \<longrightarrow>
      RouteTable_find (RouteTable_set routes p m h) '''' m' = RouteTable_find routes '''' m') \<and>
   (p' \<noteq> '''' \<longrightarrow>
      RouteTable_find (RouteTable_set routes '''' m h) p' m' = RouteTable_find routes p' m') \<and>
   RouteTable_find (RouteTable_set routes '''' m h) '''' (HttpMethod_string m) \<noteq> None"
  by (auto simp: RouteTable_find_via_entry RouteTable_set_other_path RouteTable_set_same_path
      split: option.splits)

theorem RouteTable_set_frame_witness:
  "RouteTable_set table_any_x ''/y'' GET 3 ''/x'' = table_any_x ''/x'' \<and>
   RouteTable_find (RouteTable_set table_any_x ''/y'' GET 3) ''/x'' ''GET''
     = RouteTable_find table_any_x ''/x'' ''GET'' \<and>
   RouteTable_find (RouteTable_set table_any_x ''/y'' GET 3) '''' ''GET''
     = RouteTable_find table_any_x '''' ''GET'' \<and>
   RouteTable_find (RouteTable_set table_any_x '''' GET 3) ''/x'' ''GET''
     = RouteTable_find table_any_x ''/x'' ''GET'' \<and>
   RouteTable_find (RouteTable_set table_any_x '''' GET 3) '''' ''GET'' \<noteq> None"
  using RouteTable_set_frame [of "''/x''" "''/y''" table_any_x GET 3 "''GET''"]
    RouteTable_set_frame [of "''/x''" "''''" table_any_x GET 3 "''GET''"]
  by simp

subsection \<open>\<open>find\<close> on a table built from registrations\<close>

text \<open>
  On a table built from the empty one by registrations, \<open>find\<close> returns the wildcard
  handler registered last for the path, if there is one, and else the handler registered
  last for the path and method.
\<close>

lemma entry_RouteTable_set:
  "entry (RouteTable_set routes q m handler) p ms =
     (if q = p \<and> HttpMethod_string m = ms then Some handler else entry routes p ms)"
proof (cases "q = p")
  case True
  then show ?thesis
    by (simp add: entry_def RouteTable_set_same_path split: option.splits)
next
  case False
  then have "RouteTable_set routes q m handler p = routes p"
    by (simp add: RouteTable_set_other_path)
  with False show ?thesis
    by (simp add: entry_def)
qed

lemma entry_register_all:
  "entry (register_all routes registrations) p ms =
     (case last_registered registrations p ms of
        Some handler \<Rightarrow> Some handler
      | None \<Rightarrow> entry routes p ms)"
proof (induction registrations arbitrary: routes)
  case Nil
  then show ?case by simp
next
  case (Cons registration rest)
  obtain q m handler where "registration = (q, m, handler)"
    by (cases registration)
  with Cons show ?case
    by (simp add: entry_RouteTable_set split: option.splits)
qed

lemma RouteTable_find_entry:
  "RouteTable_find routes p ms =
     (case entry routes p ''ANY'' of Some wildcard \<Rightarrow> Some wildcard | None \<Rightarrow> entry routes p ms)"
  by (simp add: RouteTable_find_via_entry entry_def split: option.splits)

lemma RouteTable_find_refines_spec_find:
  "RouteTable_find (register_all RouteTable_new registrations) p ms = spec_find registrations p ms"
proof -
  have "entry (RouteTable_new :: 'a RouteTable) p ms' = None" for ms'
    by (simp add: entry_def RouteTable_new_def)
  then show ?thesis
    by (simp add: RouteTable_find_entry entry_register_all spec_find_def split: option.splits)
qed

section \<open>Properties of the serialisation\<close>

lemma QuoteJSONString_keys:
  \<open>QuoteJSONString ''path'' = ''"path"''\<close>
  \<open>QuoteJSONString ''method'' = ''"method"''\<close>
  \<open>QuoteJSONString ''requestId'' = ''"requestId"''\<close>
  \<open>QuoteJSONString ''message'' = ''"message"''\<close>
  \<open>QuoteJSONString ''detail'' = ''"detail"''\<close>
  \<open>QuoteJSONString ''404 Not Found'' = ''"404 Not Found"''\<close>
  \<open>QuoteJSONString ''500 Internal Server Error'' = ''"500 Internal Server Error"''\<close>
  \<open>QuoteJSONString ''Unknown'' = ''"Unknown"''\<close>
  by (simp_all add: QuoteJSONString_def QuoteJSONString_unit_def)

text \<open>A string with nothing to escape is quoted as it is.\<close>

lemma QuoteJSONString_unit_plain:
  "(0x20::nat) \<le> of_char c \<Longrightarrow> c \<noteq> CHR 0x22 \<Longrightarrow> c \<noteq> CHR 0x5C \<Longrightarrow>
   QuoteJSONString_unit c = [c]"
  by (auto simp: QuoteJSONString_unit_def)

lemma concat_QuoteJSONString_unit_plain:
  "\<forall>c \<in> set s. (0x20::nat) \<le> of_char c \<and> c \<noteq> CHR 0x22 \<and> c \<noteq> CHR 0x5C \<Longrightarrow>
   concat (map QuoteJSONString_unit s) = s"
  by (induction s) (simp_all add: QuoteJSONString_unit_plain)

lemma QuoteJSONString_plain:
  assumes "\<forall>c \<in> set s. (0x20::nat) \<le> of_char c \<and> c \<noteq> CHR 0x22 \<and> c \<noteq> CHR 0x5C"
  shows "QuoteJSONString s = [CHR 0x22] @ s @ [CHR 0x22]"
  using concat_QuoteJSONString_unit_plain [OF assms] by (simp add: QuoteJSONString_def)

text \<open>A property whose value is a function leaves no trace in the text.\<close>

lemma JSON_stringify_omits_function:
  "JSON_stringify (before @ (key, JS_function) # after) = JSON_stringify (before @ after)"
  by (simp add: JSON_stringify_def SerializeJSONObject_def List.map_filter_def)

lemma partial_not_found_object:
  "List.map_filter
     (\<lambda>(key, v). case SerializeJSONProperty v of
          None \<Rightarrow> None
        | Some strP \<Rightarrow> Some (QuoteJSONString key @ '':'' @ strP))
     [(''path'', JS_string a), (''method'', JS_string b), (''requestId'', JS_string c),
      (''time'', currentTimeISOString), (''message'', JS_string ''404 Not Found'')]
   = [QuoteJSONString ''path'' @ '':'' @ QuoteJSONString a,
      QuoteJSONString ''method'' @ '':'' @ QuoteJSONString b,
      QuoteJSONString ''requestId'' @ '':'' @ QuoteJSONString c,
      QuoteJSONString ''message'' @ '':'' @ QuoteJSONString ''404 Not Found'']"
  by (simp add: List.map_filter_simps currentTimeISOString_def)

lemma partial_error_object:
  "List.map_filter
     (\<lambda>(key, v). case SerializeJSONProperty v of
          None \<Rightarrow> None
        | Some strP \<Rightarrow> Some (QuoteJSONString key @ '':'' @ strP))
     [(''path'', JS_string a), (''method'', JS_string b), (''time'', currentTimeISOString),
      (''message'', JS_string ''500 Internal Server Error''), (''detail'', JS_string d)]
   = [QuoteJSONString ''path'' @ '':'' @ QuoteJSONString a,
      QuoteJSONString ''method'' @ '':'' @ QuoteJSONString b,
      QuoteJSONString ''message'' @ '':'' @ QuoteJSONString ''500 Internal Server Error'',
      QuoteJSONString ''detail'' @ '':'' @ QuoteJSONString d]"
  by (simp add: List.map_filter_simps currentTimeISOString_def)

lemma JSON_stringify_not_found_object:
  \<open>JSON_stringify
     [(''path'', JS_string a), (''method'', JS_string b), (''requestId'', JS_string c),
      (''time'', currentTimeISOString), (''message'', JS_string ''404 Not Found'')]
   = ''{"path":'' @ QuoteJSONString a @ '',"method":'' @ QuoteJSONString b @
     '',"requestId":'' @ QuoteJSONString c @ '',"message":"404 Not Found"}''\<close>
  unfolding JSON_stringify_def SerializeJSONObject_def partial_not_found_object Let_def
  by (simp add: QuoteJSONString_keys)

lemma JSON_stringify_error_object:
  \<open>JSON_stringify
     [(''path'', JS_string a), (''method'', JS_string b), (''time'', currentTimeISOString),
      (''message'', JS_string ''500 Internal Server Error''), (''detail'', JS_string d)]
   = ''{"path":'' @ QuoteJSONString a @ '',"method":'' @ QuoteJSONString b @
     '',"message":"500 Internal Server Error","detail":'' @ QuoteJSONString d @ ''}''\<close>
  unfolding JSON_stringify_def SerializeJSONObject_def partial_error_object Let_def
  by (simp add: QuoteJSONString_keys)

subsection \<open>The quoted text determines the string\<close>

text \<open>
  No escape of a character is the beginning of the escape of another, and none begins
  with the double quote that ends the string. So a quoted string can be read back from
  the front of a text, and the body of a fallback response determines the path, the
  method and the other strings that the handler put into it.
\<close>

lemma hex_digit_inj:
  assumes "i < 16" "j < 16" "hex_digit i = hex_digit j"
  shows "i = j"
proof -
  have "distinct ''0123456789abcdef''" by simp
  moreover have "length ''0123456789abcdef'' = 16" by simp
  ultimately show ?thesis
    using assms unfolding hex_digit_def
    by (metis mod_less nth_eq_iff_index_eq)
qed

lemma hex_digit_not_special:
  "hex_digit n \<noteq> CHR 0x22" "hex_digit n \<noteq> CHR 0x5C"
proof -
  have "hex_digit n \<in> set ''0123456789abcdef''"
    unfolding hex_digit_def by (rule nth_mem) simp
  then show "hex_digit n \<noteq> CHR 0x22" "hex_digit n \<noteq> CHR 0x5C"
    by auto
qed

lemma QuoteJSONString_unit_shape:
  "QuoteJSONString_unit c = [c] \<and> c \<noteq> CHR 0x5C \<and> c \<noteq> CHR 0x22 \<or>
   (\<exists>x. QuoteJSONString_unit c = [CHR 0x5C, x] \<and> x \<noteq> CHR ''u'') \<or>
   QuoteJSONString_unit c = [CHR 0x5C, CHR ''u'', CHR ''0'', CHR ''0'',
     hex_digit (of_char c div 16), hex_digit (of_char c mod 16)] \<and> (of_char c :: nat) < 0x20"
  by (simp add: QuoteJSONString_unit_def)


lemma hex_digits_determine:
  assumes "(of_char c :: nat) < 0x20" "(of_char d :: nat) < 0x20"
    and "hex_digit (of_char c div 16) = hex_digit (of_char d div 16)"
    and "hex_digit (of_char c mod 16) = hex_digit (of_char d mod 16)"
  shows "c = d"
proof -
  have "(of_char c :: nat) div 16 = of_char d div 16"
    using assms(1,2,3) by (intro hex_digit_inj) auto
  moreover have "(of_char c :: nat) mod 16 = of_char d mod 16"
    using assms(4) by (intro hex_digit_inj) auto
  ultimately have "(of_char c :: nat) = of_char d"
    by (metis div_mult_mod_eq)
  then show ?thesis by simp
qed

lemma QuoteJSONString_unit_prefix_free:
  assumes "QuoteJSONString_unit c @ xs = QuoteJSONString_unit d @ ys"
  shows "c = d \<and> xs = ys"
  using assms
  by (auto simp: QuoteJSONString_unit_def split: if_splits dest: hex_digits_determine)


lemma QuoteJSONString_unit_head:
  "\<exists>a rest. QuoteJSONString_unit c = a # rest \<and> a \<noteq> CHR 0x22"
  by (simp add: QuoteJSONString_unit_def)

lemma concat_QuoteJSONString_unit_delimited:
  assumes "concat (map QuoteJSONString_unit s) @ CHR 0x22 # xs =
           concat (map QuoteJSONString_unit t) @ CHR 0x22 # ys"
  shows "s = t \<and> xs = ys"
  using assms
proof (induction s arbitrary: t)
  case Nil
  show ?case
  proof (cases t)
    case Nil
    with Nil.prems show ?thesis by simp
  next
    case (Cons d t')
    obtain a rest where "QuoteJSONString_unit d = a # rest" "a \<noteq> CHR 0x22"
      using QuoteJSONString_unit_head by blast
    with Nil.prems Cons show ?thesis by simp
  qed
next
  case (Cons c s')
  show ?case
  proof (cases t)
    case Nil
    obtain a rest where "QuoteJSONString_unit c = a # rest" "a \<noteq> CHR 0x22"
      using QuoteJSONString_unit_head by blast
    with Cons.prems Nil show ?thesis by simp
  next
    case (Cons d t')
    with Cons.prems have
      "QuoteJSONString_unit c @ (concat (map QuoteJSONString_unit s') @ CHR 0x22 # xs) =
       QuoteJSONString_unit d @ (concat (map QuoteJSONString_unit t') @ CHR 0x22 # ys)"
      by simp
    then have "c = d" and
      "concat (map QuoteJSONString_unit s') @ CHR 0x22 # xs =
       concat (map QuoteJSONString_unit t') @ CHR 0x22 # ys"
      using QuoteJSONString_unit_prefix_free by blast+
    with Cons.IH Cons show ?thesis by simp
  qed
qed

lemma QuoteJSONString_delimited:
  "QuoteJSONString s @ xs = QuoteJSONString t @ ys \<Longrightarrow> s = t \<and> xs = ys"
  using concat_QuoteJSONString_unit_delimited [of s xs t ys]
  by (simp add: QuoteJSONString_def)

lemma QuoteJSONString_inj: "QuoteJSONString s = QuoteJSONString t \<longleftrightarrow> s = t"
  using QuoteJSONString_delimited [of s "[]" t "[]"] by auto


lemma error_body_determines_fields:
  assumes \<open>''{"path":'' @ QuoteJSONString a @ '',"method":'' @ QuoteJSONString b @
             '',"message":"500 Internal Server Error","detail":'' @ QuoteJSONString d @ ''}''
         = ''{"path":'' @ QuoteJSONString a' @ '',"method":'' @ QuoteJSONString b' @
             '',"message":"500 Internal Server Error","detail":'' @ QuoteJSONString d' @ ''}''\<close>
  shows "a = a' \<and> b = b' \<and> d = d'"
proof -
  from assms have
    \<open>QuoteJSONString a @ ('',"method":'' @ QuoteJSONString b @
        '',"message":"500 Internal Server Error","detail":'' @ QuoteJSONString d @ ''}'')
     = QuoteJSONString a' @ ('',"method":'' @ QuoteJSONString b' @
        '',"message":"500 Internal Server Error","detail":'' @ QuoteJSONString d' @ ''}'')\<close>
    by simp
  from QuoteJSONString_delimited [OF this] have a: "a = a'" and
    \<open>QuoteJSONString b @
        ('',"message":"500 Internal Server Error","detail":'' @ QuoteJSONString d @ ''}'')
     = QuoteJSONString b' @
        ('',"message":"500 Internal Server Error","detail":'' @ QuoteJSONString d' @ ''}'')\<close>
    by simp_all
  from QuoteJSONString_delimited [OF this(2)] have b: "b = b'" and
    \<open>QuoteJSONString d @ ''}'' = QuoteJSONString d' @ ''}''\<close>
    by simp_all
  from QuoteJSONString_delimited [OF this(2)] a b show ?thesis
    by simp
qed

lemma not_found_body_determines_fields:
  assumes \<open>''{"path":'' @ QuoteJSONString a @ '',"method":'' @ QuoteJSONString b @
             '',"requestId":'' @ QuoteJSONString c @ '',"message":"404 Not Found"}''
         = ''{"path":'' @ QuoteJSONString a' @ '',"method":'' @ QuoteJSONString b' @
             '',"requestId":'' @ QuoteJSONString c' @ '',"message":"404 Not Found"}''\<close>
  shows "a = a' \<and> b = b' \<and> c = c'"
proof -
  from assms have
    \<open>QuoteJSONString a @ ('',"method":'' @ QuoteJSONString b @
        '',"requestId":'' @ QuoteJSONString c @ '',"message":"404 Not Found"}'')
     = QuoteJSONString a' @ ('',"method":'' @ QuoteJSONString b' @
        '',"requestId":'' @ QuoteJSONString c' @ '',"message":"404 Not Found"}'')\<close>
    by simp
  from QuoteJSONString_delimited [OF this] have a: "a = a'" and
    \<open>QuoteJSONString b @ ('',"requestId":'' @ QuoteJSONString c @ '',"message":"404 Not Found"}'')
     = QuoteJSONString b' @ ('',"requestId":'' @ QuoteJSONString c' @ '',"message":"404 Not Found"}'')\<close>
    by simp_all
  from QuoteJSONString_delimited [OF this(2)] have b: "b = b'" and
    \<open>QuoteJSONString c @ '',"message":"404 Not Found"}''
     = QuoteJSONString c' @ '',"message":"404 Not Found"}''\<close>
    by simp_all
  from QuoteJSONString_delimited [OF this(2)] a b show ?thesis
    by simp
qed

section \<open>Properties of the router\<close>

lemma constructed_defaults:
  "constructed r \<Longrightarrow>
     routeNotFoundHandlerDefault r = routeNotFoundHandlerDefault_fn \<and>
     routeUnhandledErrorHandlerDefault r = routeUnhandledErrorHandlerDefault_fn \<and>
     routeUnhandledErrorUnknownHandler r = routeUnhandledErrorUnknownHandler_fn"
  by (induction r rule: constructed.induct)
     (simp_all add: Router_new_def setRoute_def setRouteNotFoundHandler_def
        setRouteUnhandledExceptionHandler_def)

lemma handle_unfold:
  "requestTransformer r event = Inr request \<Longrightarrow>
   handle r event =
     await_then (try_catch (dispatch r request) (recover r request))
       (\<lambda>response. invoke (Call_responseTransformer response) (responseTransformer r response))"
  by (simp add: handle_def)

lemma dispatch_route_handler:
  "RouteTable_find (routeTable r) (path request) (request_method request) = Some handler \<Longrightarrow>
   dispatch r request = ([Call_routeHandler request], handler request)"
  by (simp add: dispatch_def invoke_def)

lemma dispatch_not_found:
  "RouteTable_find (routeTable r) (path request) (request_method request) = None \<Longrightarrow>
   dispatch r request = ([Call_routeNotFoundHandler request], routeNotFoundHandler r request)"
  by (simp add: dispatch_def invoke_def)


lemma handle_of_response:
  assumes "requestTransformer r event = Inr request"
    and "try_catch (dispatch r request) (recover r request) = (calls, Inr response)"
  shows "handle r event =
     (calls @ [Call_responseTransformer response], responseTransformer r response)"
  using assms by (simp add: handle_def await_then_def invoke_def)



lemma try_catch_thrown:
  "block = (calls, Inl thrown_value) \<Longrightarrow>
   try_catch block handler = (calls @ fst (handler thrown_value), snd (handler thrown_value))"
  by (simp add: try_catch_def split: prod.splits)





lemma defaults_return:
  "(routeUnhandledErrorHandlerDefault_fn request (Error msg) :: 'v thrown + HttpEventResponse)
     \<noteq> Inl t"
  "(routeUnhandledErrorUnknownHandler_fn request u :: 'v thrown + HttpEventResponse) \<noteq> Inl t"
  "(routeNotFoundHandlerDefault_fn request :: 'v thrown + HttpEventResponse) \<noteq> Inl t"
  by (simp_all add: routeUnhandledErrorHandlerDefault_fn_def
      routeUnhandledErrorUnknownHandler_fn_def routeNotFoundHandlerDefault_fn_def)





lemma setRouteUnhandledExceptionHandler_reads:
  "requestTransformer (setRouteUnhandledExceptionHandler r handler') = requestTransformer r"
  "responseTransformer (setRouteUnhandledExceptionHandler r handler') = responseTransformer r"
  "routeTable (setRouteUnhandledExceptionHandler r handler') = routeTable r"
  "routeNotFoundHandler (setRouteUnhandledExceptionHandler r handler') = routeNotFoundHandler r"
  "routeUnhandledErrorHandlerDefault (setRouteUnhandledExceptionHandler r handler')
     = routeUnhandledErrorHandlerDefault r"
  "routeUnhandledErrorUnknownHandler (setRouteUnhandledExceptionHandler r handler')
     = routeUnhandledErrorUnknownHandler r"
  by (simp_all add: setRouteUnhandledExceptionHandler_def)

lemma handle_ignores_routeUnhandledExceptionHandler:
  "handle (setRouteUnhandledExceptionHandler r handler') event = handle r event"
  unfolding handle_def dispatch_def recover_def setRouteUnhandledExceptionHandler_reads
  by (rule refl)


subsection \<open>The example routers\<close>

lemma constructed_examples:
  "constructed example_router" "constructed failing_router" "constructed customised_router"
  unfolding example_router_def failing_router_def customised_router_def
  by (intro constructed.intros)+

lemma example_requestTransformer:
  "requestTransformer example_router request = Inr request"
  "requestTransformer failing_router request = Inr request"
  "requestTransformer customised_router request = Inr request"
  "requestTransformer flaky_router request = Inr request"
  by (simp_all add: example_router_def failing_router_def customised_router_def flaky_router_def
      Router_new_def setRoute_def setRouteUnhandledExceptionHandler_def)

lemma example_responseTransformer:
  "responseTransformer example_router = Inr"
  "responseTransformer failing_router = Inr"
  "responseTransformer customised_router = Inr"
  "responseTransformer flaky_router = Inr"
  by (simp_all add: example_router_def failing_router_def customised_router_def flaky_router_def
      Router_new_def setRoute_def setRouteUnhandledExceptionHandler_def)

lemma example_find:
  "RouteTable_find (routeTable example_router) ''/missing'' ''GET'' = None"
  "RouteTable_find (routeTable failing_router) ''/boom'' ''GET'' = Some throws_Error"
  "RouteTable_find (routeTable failing_router) ''/secret'' ''GET'' = Some throws_string"
  "RouteTable_find (routeTable flaky_router) ''/boom'' ''GET'' = Some throws_Error"
  "RouteTable_find (routeTable flaky_router) ''/odd'' ''GET'' = Some throws_Error_odd"
  by (simp_all add: example_router_def failing_router_def flaky_router_def
      Router_new_def setRoute_def RouteTable_new_def RouteTable_find_via_entry
      RouteTable_set_same_path RouteTable_set_other_path)

lemma request_of_reads:
  "path (request_of p m) = p" "request_method (request_of p m) = m"
  "requestId (request_of p m) = ''req-1''"
  by (simp_all add: request_of_def)

lemma QuoteJSONString_examples:
  \<open>QuoteJSONString ''/missing'' = ''"/missing"''\<close>
  \<open>QuoteJSONString ''/boom'' = ''"/boom"''\<close>
  \<open>QuoteJSONString ''/secret'' = ''"/secret"''\<close>
  \<open>QuoteJSONString ''/odd'' = ''"/odd"''\<close>
  \<open>QuoteJSONString ''GET'' = ''"GET"''\<close>
  \<open>QuoteJSONString ''req-1'' = ''"req-1"''\<close>
  \<open>QuoteJSONString ''boom'' = ''"boom"''\<close>
  \<open>QuoteJSONString ''/once'' = ''"/once"''\<close>
  \<open>QuoteJSONString ''inner'' = ''"inner"''\<close>
  by (simp_all add: QuoteJSONString_def QuoteJSONString_unit_def)






lemma handle_failing_router_boom:
  \<open>handle failing_router (request_of ''/boom'' ''GET'') =
     ([Call_routeHandler (request_of ''/boom'' ''GET''),
       Call_routeUnhandledErrorHandlerDefault (request_of ''/boom'' ''GET'') (Error ''boom''),
       Call_responseTransformer
         \<lparr>statusCode = Some 500,
          headers = Some [(''Content-Type'', ''application/json'')],
          body = Some ''{"path":"/boom","method":"GET","message":"500 Internal Server Error","detail":"boom"}'',
          isBodyBase64 = None\<rparr>],
      Inr \<lparr>statusCode = Some 500,
           headers = Some [(''Content-Type'', ''application/json'')],
           body = Some ''{"path":"/boom","method":"GET","message":"500 Internal Server Error","detail":"boom"}'',
           isBodyBase64 = None\<rparr>)\<close>
proof -
  have fn: "routeUnhandledErrorHandlerDefault failing_router = routeUnhandledErrorHandlerDefault_fn"
    by (simp add: failing_router_def example_router_def Router_new_def setRoute_def)
  have "try_catch (dispatch failing_router (request_of ''/boom'' ''GET''))
          (recover failing_router (request_of ''/boom'' ''GET'')) =
        ([Call_routeHandler (request_of ''/boom'' ''GET''),
          Call_routeUnhandledErrorHandlerDefault (request_of ''/boom'' ''GET'') (Error ''boom'')],
         routeUnhandledErrorHandlerDefault_fn (request_of ''/boom'' ''GET'') (Error ''boom''))"
    by (simp add: dispatch_def request_of_reads example_find invoke_def throws_Error_def
        try_catch_def recover_def fn routeUnhandledErrorHandlerDefault_fn_def)
  then show ?thesis
    using handle_of_response [OF example_requestTransformer(2)]
    by (simp add: routeUnhandledErrorHandlerDefault_fn_def JSON_stringify_error_object
        request_of_reads QuoteJSONString_examples example_responseTransformer)
qed





text \<open>
  Claim C4. When the route handler of the request throws an \<^verbatim>\<open>Error\<close> that carries a
  message text, \<open>handle\<close> passes to the response transformer a response with status
  code 500 whose JSON body holds the path and the method of the request, the status
  message \<^verbatim>\<open>500 Internal Server Error\<close> and, as the detail, the message text of that
  \<^verbatim>\<open>Error\<close>. This holds on every router that the operations of the class build.
\<close>

theorem handle_Error_500:
  assumes "constructed r"
    and "requestTransformer r event = Inr request"
    and "RouteTable_find (routeTable r) (path request) (request_method request) = Some handler"
    and "handler request = Inl (Thrown_Error e)"
    and "message e = Inr msg"
  shows \<open>let response =
           \<lparr>statusCode = Some 500,
            headers = Some [(''Content-Type'', ''application/json'')],
            body = Some (''{"path":'' @ QuoteJSONString (path request) @
                         '',"method":'' @ QuoteJSONString (request_method request) @
                         '',"message":"500 Internal Server Error","detail":'' @
                         QuoteJSONString msg @ ''}''),
            isBodyBase64 = None\<rparr>
         in handle r event =
              ([Call_routeHandler request, Call_routeUnhandledErrorHandlerDefault request e,
                Call_responseTransformer response],
               responseTransformer r response)\<close>
proof -
  have fn: "routeUnhandledErrorHandlerDefault r = routeUnhandledErrorHandlerDefault_fn"
    using constructed_defaults [OF assms(1)] by simp
  have "try_catch (dispatch r request) (recover r request) =
      ([Call_routeHandler request, Call_routeUnhandledErrorHandlerDefault request e],
       routeUnhandledErrorHandlerDefault_fn request e)"
    using assms(3,4,5) fn
    by (simp add: dispatch_route_handler try_catch_def recover_def invoke_def
        routeUnhandledErrorHandlerDefault_fn_def)
  then show ?thesis
    using handle_of_response [OF assms(2)] assms(5)
    by (simp add: routeUnhandledErrorHandlerDefault_fn_def JSON_stringify_error_object Let_def)
qed

theorem handle_Error_500_witness:
  \<open>handle failing_router (request_of ''/boom'' ''GET'') =
     ([Call_routeHandler (request_of ''/boom'' ''GET''),
       Call_routeUnhandledErrorHandlerDefault (request_of ''/boom'' ''GET'') (Error ''boom''),
       Call_responseTransformer
         \<lparr>statusCode = Some 500,
          headers = Some [(''Content-Type'', ''application/json'')],
          body = Some ''{"path":"/boom","method":"GET","message":"500 Internal Server Error","detail":"boom"}'',
          isBodyBase64 = None\<rparr>],
      Inr \<lparr>statusCode = Some 500,
           headers = Some [(''Content-Type'', ''application/json'')],
           body = Some ''{"path":"/boom","method":"GET","message":"500 Internal Server Error","detail":"boom"}'',
           isBodyBase64 = None\<rparr>)\<close>
proof -
  have found: "RouteTable_find (routeTable failing_router)
      (path (request_of ''/boom'' ''GET'')) (request_method (request_of ''/boom'' ''GET''))
      = Some throws_Error"
    by (simp add: request_of_reads example_find)
  have thrown: "throws_Error (request_of ''/boom'' ''GET'') = Inl (Thrown_Error (Error ''boom''))"
    by (simp add: throws_Error_def)
  show ?thesis
    using handle_Error_500 [OF constructed_examples(2) example_requestTransformer(2) found thrown,
        of "''boom''"]
    by (simp add: Let_def request_of_reads QuoteJSONString_examples example_responseTransformer)
qed





text \<open>
  Claim C7. When \<open>find\<close> returns absent for the path and method of the request and the
  not-found handler is the default one, \<open>handle\<close> calls it with the request and passes
  to the response transformer a response with status code 404 whose JSON body holds the
  path, the method and the request identifier of the request.
\<close>

theorem handle_not_found_404:
  assumes "requestTransformer r event = Inr request"
    and "RouteTable_find (routeTable r) (path request) (request_method request) = None"
    and "routeNotFoundHandler r = routeNotFoundHandlerDefault_fn"
  shows \<open>let response =
           \<lparr>statusCode = Some 404,
            headers = Some [(''Content-Type'', ''application/json'')],
            body = Some (''{"path":'' @ QuoteJSONString (path request) @
                         '',"method":'' @ QuoteJSONString (request_method request) @
                         '',"requestId":'' @ QuoteJSONString (requestId request) @
                         '',"message":"404 Not Found"}''),
            isBodyBase64 = None\<rparr>
         in handle r event =
              ([Call_routeNotFoundHandler request, Call_responseTransformer response],
               responseTransformer r response)\<close>
proof -
  have "try_catch (dispatch r request) (recover r request) =
      ([Call_routeNotFoundHandler request], routeNotFoundHandlerDefault_fn request)"
    using assms(2,3)
    by (simp add: dispatch_not_found try_catch_def routeNotFoundHandlerDefault_fn_def)
  then show ?thesis
    using handle_of_response [OF assms(1)]
    by (simp add: routeNotFoundHandlerDefault_fn_def JSON_stringify_not_found_object Let_def)
qed

theorem handle_not_found_404_witness:
  \<open>handle example_router (request_of ''/missing'' ''GET'') =
     ([Call_routeNotFoundHandler (request_of ''/missing'' ''GET''),
       Call_responseTransformer
         \<lparr>statusCode = Some 404,
          headers = Some [(''Content-Type'', ''application/json'')],
          body = Some ''{"path":"/missing","method":"GET","requestId":"req-1","message":"404 Not Found"}'',
          isBodyBase64 = None\<rparr>],
      Inr \<lparr>statusCode = Some 404,
           headers = Some [(''Content-Type'', ''application/json'')],
           body = Some ''{"path":"/missing","method":"GET","requestId":"req-1","message":"404 Not Found"}'',
           isBodyBase64 = None\<rparr>)\<close>
proof -
  have nf: "routeNotFoundHandler example_router = routeNotFoundHandlerDefault_fn"
    by (simp add: example_router_def Router_new_def)
  have absent: "RouteTable_find (routeTable example_router)
      (path (request_of ''/missing'' ''GET'')) (request_method (request_of ''/missing'' ''GET''))
      = None"
    by (simp add: request_of_reads example_find)
  show ?thesis
    using handle_not_found_404 [OF example_requestTransformer(1) absent nf]
    by (simp add: Let_def request_of_reads QuoteJSONString_examples example_responseTransformer)
qed

text \<open>
  Claim C2 says that after \<open>setRouteUnhandledExceptionHandler(h)\<close> a route handler that
  throws an \<^verbatim>\<open>Error\<close> makes \<open>handle\<close> call \<open>h\<close> and return its transformed response.
  \<open>handle\<close> never reads the property that the setter writes: it calls
  \<^verbatim>\<open>routeUnhandledErrorHandlerDefault\<close>. On the router whose \<^verbatim>\<open>GET /boom\<close> handler throws
  \<^verbatim>\<open>Error("boom")\<close> and whose unhandled-error handler was replaced by one that answers
  503 \<^verbatim>\<open>custom\<close>, \<open>handle\<close> calls the default handler and returns its 500 response,
  not the response of the replacement.
\<close>

theorem replaced_error_handler_never_called:
  \<open>routeUnhandledExceptionHandler customised_router = custom_error_handler \<and>
   custom_error_handler (request_of ''/boom'' ''GET'') (Error ''boom'') = Inr custom_response \<and>
   handle customised_router (request_of ''/boom'' ''GET'') =
     ([Call_routeHandler (request_of ''/boom'' ''GET''),
       Call_routeUnhandledErrorHandlerDefault (request_of ''/boom'' ''GET'') (Error ''boom''),
       Call_responseTransformer
         \<lparr>statusCode = Some 500,
          headers = Some [(''Content-Type'', ''application/json'')],
          body = Some ''{"path":"/boom","method":"GET","message":"500 Internal Server Error","detail":"boom"}'',
          isBodyBase64 = None\<rparr>],
      Inr \<lparr>statusCode = Some 500,
           headers = Some [(''Content-Type'', ''application/json'')],
           body = Some ''{"path":"/boom","method":"GET","message":"500 Internal Server Error","detail":"boom"}'',
           isBodyBase64 = None\<rparr>) \<and>
   snd (handle customised_router (request_of ''/boom'' ''GET''))
     \<noteq> responseTransformer customised_router custom_response\<close>
proof -
  have "handle customised_router (request_of ''/boom'' ''GET'')
      = handle failing_router (request_of ''/boom'' ''GET'')"
    unfolding customised_router_def by (rule handle_ignores_routeUnhandledExceptionHandler)
  then show ?thesis
    by (simp add: handle_failing_router_boom example_responseTransformer custom_response_def
        custom_error_handler_def)
      (simp add: customised_router_def setRouteUnhandledExceptionHandler_def)
qed

text \<open>
  Claim C9. The body of each of the three default fallback handlers is the serialisation
  of its object literal without the \<^verbatim>\<open>time\<close> property, whose value is the function
  \<^verbatim>\<open>currentTimeISOString\<close> itself: the text holds the path, the method, the request
  identifier (not-found handler only), the message and the detail (the two error
  handlers), and no \<^verbatim>\<open>time\<close> key. The unhandled-error handler produces a body when
  the message of its \<^verbatim>\<open>Error\<close> is a text.
\<close>

theorem fallback_bodies_omit_time:
  \<open>(routeNotFoundHandlerDefault_fn request :: 'v thrown + HttpEventResponse) =
     Inr \<lparr>statusCode = Some 404,
          headers = Some [(''Content-Type'', ''application/json'')],
          body = Some (JSON_stringify
            [(''path'', JS_string (path request)),
             (''method'', JS_string (request_method request)),
             (''requestId'', JS_string (requestId request)),
             (''message'', JS_string ''404 Not Found'')]),
          isBodyBase64 = None\<rparr> \<and>
   JSON_stringify
     [(''path'', JS_string (path request)),
      (''method'', JS_string (request_method request)),
      (''requestId'', JS_string (requestId request)),
      (''message'', JS_string ''404 Not Found'')] =
     ''{"path":'' @ QuoteJSONString (path request) @
     '',"method":'' @ QuoteJSONString (request_method request) @
     '',"requestId":'' @ QuoteJSONString (requestId request) @
     '',"message":"404 Not Found"}'' \<and>
   (routeUnhandledErrorHandlerDefault_fn request (Error msg) :: 'v thrown + HttpEventResponse) =
     Inr \<lparr>statusCode = Some 500,
          headers = Some [(''Content-Type'', ''application/json'')],
          body = Some (JSON_stringify
            [(''path'', JS_string (path request)),
             (''method'', JS_string (request_method request)),
             (''message'', JS_string ''500 Internal Server Error''),
             (''detail'', JS_string msg)]),
          isBodyBase64 = None\<rparr> \<and>
   JSON_stringify
     [(''path'', JS_string (path request)),
      (''method'', JS_string (request_method request)),
      (''message'', JS_string ''500 Internal Server Error''),
      (''detail'', JS_string msg)] =
     ''{"path":'' @ QuoteJSONString (path request) @
     '',"method":'' @ QuoteJSONString (request_method request) @
     '',"message":"500 Internal Server Error","detail":'' @
     QuoteJSONString msg @ ''}'' \<and>
   (routeUnhandledErrorUnknownHandler_fn request (thrown_value :: 'v thrown)
      :: 'v thrown + HttpEventResponse) =
     Inr \<lparr>statusCode = Some 500,
          headers = Some [(''Content-Type'', ''application/json'')],
          body = Some (JSON_stringify
            [(''path'', JS_string (path request)),
             (''method'', JS_string (request_method request)),
             (''message'', JS_string ''500 Internal Server Error''),
             (''detail'', JS_string ''Unknown'')]),
          isBodyBase64 = None\<rparr> \<and>
   JSON_stringify
     [(''path'', JS_string (path request)),
      (''method'', JS_string (request_method request)),
      (''message'', JS_string ''500 Internal Server Error''),
      (''detail'', JS_string ''Unknown'')] =
     ''{"path":'' @ QuoteJSONString (path request) @
     '',"method":'' @ QuoteJSONString (request_method request) @
     '',"message":"500 Internal Server Error","detail":"Unknown"}''\<close>
proof -
  have omit3: "\<And>a b c d. JSON_stringify [a, b, c, (''time'', currentTimeISOString), d]
      = JSON_stringify [a, b, c, d]"
    using JSON_stringify_omits_function [of "[_, _, _]" "''time''" "[_]"]
    by (simp add: currentTimeISOString_def)
  have omit2: "\<And>a b c d. JSON_stringify [a, b, (''time'', currentTimeISOString), c, d]
      = JSON_stringify [a, b, c, d]"
    using JSON_stringify_omits_function [of "[_, _]" "''time''" "[_, _]"]
    by (simp add: currentTimeISOString_def)
  show ?thesis
    unfolding routeNotFoundHandlerDefault_fn_def routeUnhandledErrorHandlerDefault_fn_def
      routeUnhandledErrorUnknownHandler_fn_def omit3 omit2
    using JSON_stringify_not_found_object [of "path request" "request_method request" "requestId request"]
      JSON_stringify_error_object [of "path request" "request_method request" msg]
      JSON_stringify_error_object [of "path request" "request_method request" "''Unknown''"]
    by (simp add: omit3 omit2 QuoteJSONString_keys)
qed

end
